theory Spec2Isabelle
  imports Complex_Main
begin

section \<open>The POWDER srsLTE over-the-air profile (profile.py)\<close>

text \<open>
  The profile is one linear script: it binds the user's parameters, checks the four
  frequency bounds, lets the portal verify the collected errors and then builds the
  request (nodes, links, spectrum) through the geni-lib request object.

  The module-level globals \<^verbatim>\<open>params\<close> and \<^verbatim>\<open>request\<close> are passed
  explicitly. The portal context is the list of reported errors. The request object is a
  record of what the script asked it to create, in call order. Frequencies are
  \<^verbatim>\<open>BANDWIDTH\<close> parameters (numbers in MHz): Python floats, that is finite doubles.
  A bound is modelled by the real number the double stands for. Comparing it with an integer
  constant is exact; subtracting two bounds rounds the exact difference to a double.
\<close>

subsection \<open>class GLOBALS\<close>

definition SRSLTE_IMG :: string where
  "SRSLTE_IMG = ''urn:publicid:IDN+emulab.net+image+PowderTeam:U18LL-SRSLTE''"

definition SRSLTE_SRC_DS :: string where
  "SRSLTE_SRC_DS = ''urn:publicid:IDN+emulab.net:powderteam+imdataset+srslte-src-v19''"

definition DLDEFLOFREQ :: real where "DLDEFLOFREQ = 2620"
definition DLDEFHIFREQ :: real where "DLDEFHIFREQ = 2630"
definition ULDEFLOFREQ :: real where "ULDEFLOFREQ = 2500"
definition ULDEFHIFREQ :: real where "ULDEFHIFREQ = 2510"

subsection \<open>Bound parameters\<close>

text \<open>One entry of the struct parameters \<^verbatim>\<open>x310_radios\<close> and \<^verbatim>\<open>b210_nodes\<close>.\<close>

record x310_radio =
  radio_name :: string

record b210_node =
  aggregate_id :: string

record params =
  include_srslte_src :: bool
  x310_pair_nodetype :: string
  x310_radios :: "x310_radio list"
  b210_nodes :: "b210_node list"
  ul_freq_min :: real
  ul_freq_max :: real
  dl_freq_min :: real
  dl_freq_max :: real

text \<open>The parameter set a user gets without changing anything.\<close>

definition default_params :: params where
  "default_params =
     \<lparr> include_srslte_src = False,
       x310_pair_nodetype = ''d740'',
       x310_radios = [],
       b210_nodes = [],
       ul_freq_min = ULDEFLOFREQ,
       ul_freq_max = ULDEFHIFREQ,
       dl_freq_min = DLDEFLOFREQ,
       dl_freq_max = DLDEFHIFREQ \<rparr>"

subsection \<open>Portal context: reported parameter errors\<close>

text \<open>\<^verbatim>\<open>portal.ParameterError(message, fields)\<close>.\<close>

datatype ParameterError = ParameterError string "string list"

type_synonym portal_context = "ParameterError list"

text \<open>\<^verbatim>\<open>portal.context.reportError(perr)\<close> records the error and returns.\<close>

definition reportError :: "ParameterError \<Rightarrow> portal_context \<Rightarrow> portal_context" where
  "reportError perr ctx = ctx @ [perr]"

text \<open>The four error objects the script builds (lines 333, 336, 340, 343).\<close>

definition ul_band_error :: ParameterError where
  "ul_band_error =
     ParameterError ''Band 7 uplink frequencies must be between 2500 and 2570 MHz''
       [''ul_freq_min'', ''ul_freq_max'']"

definition ul_sep_error :: ParameterError where
  "ul_sep_error =
     ParameterError ''Minimum and maximum frequencies must be separated by at least 1 MHz''
       [''ul_freq_min'', ''ul_freq_max'']"

definition dl_band_error :: ParameterError where
  "dl_band_error =
     ParameterError ''Band 7 downlink frequencies must be between 2620 and 2690 MHz''
       [''dl_freq_min'', ''dl_freq_max'']"

definition dl_sep_error :: ParameterError where
  "dl_sep_error =
     ParameterError ''Minimum and maximum frequencies must be separated by at least 1 MHz''
       [''dl_freq_min'', ''dl_freq_max'']"

subsection \<open>Subtraction of two bounds\<close>

text \<open>
  \<^verbatim>\<open>a - b\<close> on two Python floats is the IEEE 754 binary64 subtraction: the exact
  difference, rounded to the nearest double, a tie going to the double with the even
  mantissa.

  The doubles with \<open>2 powi e \<le> \<bar>x\<bar> < 2 powi (e + 1)\<close> are the multiples of
  \<open>2 powi (e - 52)\<close>, for the exponents \<open>e\<close> from -1022 to 1023; below
  \<open>2 powi (- 1022)\<close> the subnormal doubles keep the spacing of exponent -1022.
  \<open>binade\<close> finds this exponent by going up from -1022.
\<close>

function binade_from :: "real \<Rightarrow> int \<Rightarrow> int" where
  "binade_from a e = (if 1023 \<le> e \<or> a < 2 powi (e + 1) then e else binade_from a (e + 1))"
  by pat_completeness auto
termination
  by (relation "measure (\<lambda>(a, e). nat (1023 - e))") auto

definition binade :: "real \<Rightarrow> int" where
  "binade x = binade_from \<bar>x\<bar> (- 1022)"

text \<open>The nearest integer, a tie going to the even one.\<close>

definition round_half_even :: "real \<Rightarrow> int" where
  "round_half_even y =
     (let f = \<lfloor>y\<rfloor>; r = y - of_int f
      in if r < 1 / 2 then f else if 1 / 2 < r then f + 1 else if even f then f else f + 1)"

text \<open>
  The double nearest to a real. A result of magnitude \<open>2 ^ 1024\<close> or more is an
  infinity in Python; here it stays the rounded finite number, which has the same sign and so
  compares with 1 in the same way, the only use the script makes of a difference.
\<close>

definition round_double :: "real \<Rightarrow> real" where
  "round_double x =
     of_int (round_half_even (x / 2 powi (binade x - 52))) * 2 powi (binade x - 52)"

definition float_sub :: "real \<Rightarrow> real \<Rightarrow> real" where
  "float_sub a b = round_double (a - b)"

subsection \<open>The frequency checks\<close>

text \<open>The four \<^verbatim>\<open>if\<close> statements of lines 331 to 344, one after the other.\<close>

definition check_frequencies :: "params \<Rightarrow> portal_context \<Rightarrow> portal_context" where
  "check_frequencies p ctx0 =
     (let ctx1 = (if ul_freq_min p < 2500 \<or> ul_freq_min p > 2570
                     \<or> ul_freq_max p < 2500 \<or> ul_freq_max p > 2570
                  then reportError ul_band_error ctx0 else ctx0);
          ctx2 = (if float_sub (ul_freq_max p) (ul_freq_min p) < 1
                  then reportError ul_sep_error ctx1 else ctx1);
          ctx3 = (if dl_freq_min p < 2620 \<or> dl_freq_min p > 2690
                     \<or> dl_freq_max p < 2620 \<or> dl_freq_max p > 2690
                  then reportError dl_band_error ctx2 else ctx2);
          ctx4 = (if float_sub (dl_freq_max p) (dl_freq_min p) < 1
                  then reportError dl_sep_error ctx3 else ctx3)
      in ctx4)"

text \<open>
  Modelled from the spec: \<^verbatim>\<open>portal.context.verifyParameters()\<close> belongs to the
  portal library, which is not part of the profile. The spec says that the collected errors
  go back to the host and that the run does not proceed to assembly if any error was
  reported: the call ends the run with the errors, or returns when there are none.
\<close>

definition verifyParameters :: "portal_context \<Rightarrow> ParameterError list + unit" where
  "verifyParameters ctx = (if ctx = [] then Inr () else Inl ctx)"

subsection \<open>The request object\<close>

text \<open>
  The request records what the script asks geni-lib to create: nodes
  (\<^verbatim>\<open>request.RawPC\<close>), links (\<^verbatim>\<open>request.Link\<close>) and spectrum ranges
  (\<^verbatim>\<open>request.requestSpectrum\<close>), each list in call order. Attributes that the
  script sets by assignment are optional fields, \<open>None\<close> until assigned. A storage
  mount (\<^verbatim>\<open>node.Blockstore\<close>), a service and an interface belong to their node.
\<close>

record Execute =
  shell :: string
  command :: string

record Blockstore =
  bs_name :: string
  bs_mount :: string
  dataset :: "string option"

datatype IPv4Address = IPv4Address string string

record Interface =
  if_name :: string
  addresses :: "IPv4Address list"

record Node =
  node_name :: string
  hardware_type :: "string option"
  disk_image :: "string option"
  component_id :: "string option"
  component_manager_id :: "string option"
  services :: "Execute list"
  blockstores :: "Blockstore list"
  interfaces :: "Interface list"

text \<open>
  A link is told its members in two ways: \<^verbatim>\<open>addInterface\<close> with an interface the
  script made on a node, and \<^verbatim>\<open>addNode\<close> with a node, where the library makes the
  interface itself.
\<close>

datatype LinkMember =
    MemberInterface string string  \<comment> \<open>node name, interface name\<close>
  | MemberNode string              \<comment> \<open>node name\<close>

record Link =
  link_name :: string
  bandwidth :: "int option"
  members :: "LinkMember list"

text \<open>\<^verbatim>\<open>requestSpectrum(low, high, power)\<close>: the three arguments as given.\<close>

record Spectrum =
  freq_low :: real
  freq_high :: real
  power :: int

record Request =
  nodes :: "Node list"
  links :: "Link list"
  spectrum :: "Spectrum list"

text \<open>\<^verbatim>\<open>portal.context.makeRequestRSpec()\<close>: a request with nothing in it.\<close>

definition makeRequestRSpec :: Request where
  "makeRequestRSpec = \<lparr> nodes = [], links = [], spectrum = [] \<rparr>"

text \<open>\<^verbatim>\<open>request.RawPC(name)\<close>: a node with its name and nothing else set.\<close>

definition RawPC :: "string \<Rightarrow> Node" where
  "RawPC name =
     \<lparr> node_name = name, hardware_type = None, disk_image = None, component_id = None,
       component_manager_id = None, services = [], blockstores = [], interfaces = [] \<rparr>"

definition addService :: "Execute \<Rightarrow> Node \<Rightarrow> Node" where
  "addService s n = n\<lparr>services := services n @ [s]\<rparr>"

definition requestSpectrum :: "real \<Rightarrow> real \<Rightarrow> int \<Rightarrow> Request \<Rightarrow> Request" where
  "requestSpectrum lo hi pw req =
     req\<lparr>spectrum := spectrum req @ [\<lparr> freq_low = lo, freq_high = hi, power = pw \<rparr>]\<rparr>"

subsection \<open>Formatting an index\<close>

text \<open>
  \<^verbatim>\<open>"%d" % idx\<close> and \<^verbatim>\<open>"%s" % idx\<close> of an index of \<^verbatim>\<open>enumerate\<close>:
  its decimal digits.
\<close>

definition digit_char :: "nat \<Rightarrow> char" where
  "digit_char d = char_of (of_char (CHR ''0'') + d)"

function str_nat :: "nat \<Rightarrow> string" where
  "str_nat n = (if n < 10 then [digit_char n] else str_nat (n div 10) @ [digit_char (n mod 10)])"
  by pat_completeness auto
termination
  by (relation "measure (\<lambda>n. n)") auto

subsection \<open>The two builders\<close>

text \<open>\<^verbatim>\<open>x310_node_pair(idx, x310_radio)\<close>, lines 168 to 193.\<close>

definition x310_node_pair :: "params \<Rightarrow> nat \<Rightarrow> x310_radio \<Rightarrow> Request \<Rightarrow> Request" where
  "x310_node_pair p idx r req =
     (let radio_link = \<lparr> link_name = ''radio-link-'' @ str_nat idx,
                         bandwidth = Some (10 * 1000 * 1000),
                         members = [] \<rparr>;
          node = RawPC (radio_name r @ ''-comp'');
          node = node\<lparr>hardware_type := Some (x310_pair_nodetype p)\<rparr>;
          node = node\<lparr>disk_image := Some SRSLTE_IMG\<rparr>;
          node = node\<lparr>component_manager_id := Some ''urn:publicid:IDN+emulab.net+authority+cm''\<rparr>;
          node = addService \<lparr> shell = ''bash'',
                   command = ''/local/repository/bin/add-nat-and-ip-forwarding.sh'' \<rparr> node;
          node = addService \<lparr> shell = ''bash'',
                   command = ''/local/repository/bin/update-config-files.sh'' \<rparr> node;
          node = addService \<lparr> shell = ''bash'',
                   command = ''/local/repository/bin/tune-cpu.sh'' \<rparr> node;
          node = addService \<lparr> shell = ''bash'',
                   command = ''/local/repository/bin/tune-sdr-iface.sh'' \<rparr> node;
          node = (if include_srslte_src p
                  then node\<lparr>blockstores := blockstores node @
                         [\<lparr> bs_name = ''bs-comp-'' @ str_nat idx, bs_mount = ''/opt/srslte'',
                            dataset = Some SRSLTE_SRC_DS \<rparr>]\<rparr>
                  else node);
          node_radio_if = \<lparr> if_name = ''usrp_if'',
                            addresses = [IPv4Address ''192.168.40.1'' ''255.255.255.0''] \<rparr>;
          node = node\<lparr>interfaces := interfaces node @ [node_radio_if]\<rparr>;
          radio_link = radio_link\<lparr>members := members radio_link @
                         [MemberInterface (node_name node) (if_name node_radio_if)]\<rparr>;
          radio = RawPC (radio_name r @ ''-x310'');
          radio = radio\<lparr>component_id := Some (radio_name r)\<rparr>;
          radio = radio\<lparr>component_manager_id := Some ''urn:publicid:IDN+emulab.net+authority+cm''\<rparr>;
          radio_link = radio_link\<lparr>members := members radio_link @ [MemberNode (node_name radio)]\<rparr>
      in req\<lparr>nodes := nodes req @ [node, radio], links := links req @ [radio_link]\<rparr>)"

text \<open>\<^verbatim>\<open>b210_nuc_pair(idx, b210_node)\<close>, lines 196 to 207.\<close>

definition b210_nuc_pair :: "params \<Rightarrow> nat \<Rightarrow> b210_node \<Rightarrow> Request \<Rightarrow> Request" where
  "b210_nuc_pair p idx b req =
     (let b210_nuc_pair_node = RawPC (''b210-'' @ aggregate_id b @ ''-'' @ ''nuc2'');
          agg_full_name = ''urn:publicid:IDN+'' @ aggregate_id b @ ''.powderwireless.net+authority+cm'';
          b210_nuc_pair_node = b210_nuc_pair_node\<lparr>component_manager_id := Some agg_full_name\<rparr>;
          b210_nuc_pair_node = b210_nuc_pair_node\<lparr>component_id := Some ''nuc2''\<rparr>;
          b210_nuc_pair_node = b210_nuc_pair_node\<lparr>disk_image := Some SRSLTE_IMG\<rparr>;
          b210_nuc_pair_node = addService \<lparr> shell = ''bash'',
                   command = ''/local/repository/bin/update-config-files.sh'' \<rparr> b210_nuc_pair_node;
          b210_nuc_pair_node = addService \<lparr> shell = ''bash'',
                   command = ''/local/repository/bin/tune-cpu.sh'' \<rparr> b210_nuc_pair_node;
          b210_nuc_pair_node = (if include_srslte_src p
                  then b210_nuc_pair_node\<lparr>blockstores := blockstores b210_nuc_pair_node @
                         [\<lparr> bs_name = ''bs-nuc-'' @ str_nat idx, bs_mount = ''/opt/srslte'',
                            dataset = Some SRSLTE_SRC_DS \<rparr>]\<rparr>
                  else b210_nuc_pair_node)
      in req\<lparr>nodes := nodes req @ [b210_nuc_pair_node]\<rparr>)"

subsection \<open>The script\<close>

text \<open>
  The two \<^verbatim>\<open>for i, x in enumerate(...)\<close> loops (lines 352 to 356): the counter
  starts at the given index and goes up by one per entry.
\<close>

fun x310_loop :: "params \<Rightarrow> nat \<Rightarrow> x310_radio list \<Rightarrow> Request \<Rightarrow> Request" where
  "x310_loop p i [] req = req"
| "x310_loop p i (r # rs) req = x310_loop p (Suc i) rs (x310_node_pair p i r req)"

fun b210_loop :: "params \<Rightarrow> nat \<Rightarrow> b210_node list \<Rightarrow> Request \<Rightarrow> Request" where
  "b210_loop p i [] req = req"
| "b210_loop p i (b # bs) req = b210_loop p (Suc i) bs (b210_nuc_pair p i b req)"

text \<open>Lines 350 to 359: the request is made, filled by the two loops, then the spectrum.\<close>

definition assemble :: "params \<Rightarrow> Request" where
  "assemble p =
     (let request = makeRequestRSpec;
          request = x310_loop p 0 (x310_radios p) request;
          request = b210_loop p 0 (b210_nodes p) request;
          request = requestSpectrum (ul_freq_min p) (ul_freq_max p) 0 request;
          request = requestSpectrum (dl_freq_min p) (dl_freq_max p) 0 request
      in request)"

text \<open>
  The whole script from line 328 on: the errors come back (\<open>Inl\<close>) when the portal
  stops the run, the request (\<open>Inr\<close>) otherwise.
\<close>

definition profile :: "params \<Rightarrow> ParameterError list + Request" where
  "profile p =
     (let ctx = check_frequencies p [] in
      case verifyParameters ctx of
        Inl errs \<Rightarrow> Inl errs
      | Inr _ \<Rightarrow> Inr (assemble p))"

section \<open>Facts about the script\<close>

text \<open>The digits of an index are computed on demand only.\<close>

declare str_nat.simps [simp del]

lemma str_nat_0: "str_nat 0 = ''0''"
  by code_simp

lemma str_nat_1: "str_nat (Suc 0) = ''1''"
  by code_simp

subsection \<open>Rounding and the comparison with 1\<close>

text \<open>
  The rounded difference is below 1 exactly when the exact difference is below
  \<open>1 - 1 / 2 ^ 54\<close>: from there up to 1 the nearest double is 1 itself.
\<close>

declare binade_from.simps [simp del]

lemma rhe_upper: "of_int (round_half_even y) \<le> y + 1 / 2"
  unfolding round_half_even_def Let_def by (auto; linarith)

lemma rhe_lower: "y - 1 / 2 \<le> of_int (round_half_even y)"
  unfolding round_half_even_def Let_def by (auto; linarith)

lemma binade_from_props:
  "e0 \<le> 1023 \<Longrightarrow>
     e0 \<le> binade_from a e0 \<and> binade_from a e0 \<le> 1023
     \<and> (binade_from a e0 < 1023 \<longrightarrow> a < 2 powi (binade_from a e0 + 1))
     \<and> (e0 < binade_from a e0 \<longrightarrow> 2 powi (binade_from a e0) \<le> a)"
proof (induction a e0 rule: binade_from.induct)
  case (1 a e)
  show ?case
  proof (cases "1023 \<le> e \<or> a < 2 powi (e + 1)")
    case True
    then show ?thesis
      using "1.prems" by (subst (1 2 3 4 5 6) binade_from.simps) auto
  next
    case False
    then have step: "binade_from a e = binade_from a (e + 1)"
      by (subst binade_from.simps) simp
    from False have "e + 1 \<le> 1023" by simp
    from "1.IH" [OF False this] False show ?thesis
      unfolding step by (cases "binade_from a (e + 1) = e + 1") auto
  qed
qed

lemma two_powi_less_D:
  assumes "(2::real) powi m < 2 powi n"
  shows "m < n"
proof (rule ccontr)
  assume "\<not> m < n"
  then have "(2::real) powi n \<le> 2 powi m"
    by (intro power_int_increasing) simp_all
  with assms show False by simp
qed

lemma binade_props:
  "- 1022 \<le> binade x \<and> binade x \<le> 1023
     \<and> (binade x < 1023 \<longrightarrow> \<bar>x\<bar> < 2 powi (binade x + 1))
     \<and> (- 1022 < binade x \<longrightarrow> 2 powi (binade x) \<le> \<bar>x\<bar>)"
  unfolding binade_def using binade_from_props [of "- 1022" "\<bar>x\<bar>"] by simp

lemma binade_below_one:
  assumes "\<bar>x\<bar> < 1"
  shows "binade x \<le> - 1"
proof (rule ccontr)
  assume "\<not> binade x \<le> - 1"
  then have pos: "0 \<le> binade x" by simp
  then have "2 powi (binade x) \<le> \<bar>x\<bar>"
    using binade_props [of x] by simp
  moreover have "(1::real) \<le> 2 powi (binade x)"
    using pos by simp
  ultimately show False
    using assms by simp
qed

lemma binade_from_one:
  assumes "1 \<le> \<bar>x\<bar>"
  shows "0 \<le> binade x \<and> 2 powi (binade x) \<le> \<bar>x\<bar>"
proof -
  have nonneg: "0 \<le> binade x"
  proof (cases "binade x < 1023")
    case True
    then have "\<bar>x\<bar> < 2 powi (binade x + 1)"
      using binade_props [of x] by simp
    with assms have "(2::real) powi 0 < 2 powi (binade x + 1)"
      by simp
    then have "0 < binade x + 1"
      by (rule two_powi_less_D)
    then show ?thesis by simp
  next
    case False
    then show ?thesis by simp
  qed
  then show ?thesis
    using binade_props [of x] by simp
qed

lemma binade_half_to_one:
  assumes "1 / 2 \<le> x" and "x < 1"
  shows "binade x = - 1"
proof -
  have le: "binade x \<le> - 1"
    using assms binade_below_one [of x] by simp
  then have "\<bar>x\<bar> < 2 powi (binade x + 1)"
    using binade_props [of x] by simp
  with assms have "(2::real) powi (- 1) < 2 powi (binade x + 1)"
    by (simp add: power_int_minus)
  then have "- 1 < binade x + 1"
    by (rule two_powi_less_D)
  with le show ?thesis by simp
qed

lemma round_double_nonpos:
  assumes "x \<le> 0"
  shows "round_double x \<le> 0"
proof -
  define q :: real where "q = 2 powi (binade x - 52)"
  have q: "0 < q" by (simp add: q_def)
  have "x / q \<le> 0"
    using assms q by (simp add: divide_nonpos_pos)
  with rhe_upper [of "x / q"] have "real_of_int (round_half_even (x / q)) < 1"
    by linarith
  then have "round_half_even (x / q) \<le> 0"
    by linarith
  then have "real_of_int (round_half_even (x / q)) * q \<le> 0"
    using q by (simp add: mult_le_0_iff)
  then show ?thesis
    by (simp add: round_double_def q_def)
qed

lemma round_double_below_one:
  assumes "0 < x" and "x < 1 - 1 / 2 ^ 54"
  shows "round_double x < 1"
proof -
  define q :: real where "q = 2 powi (binade x - 52)"
  have q: "0 < q" by (simp add: q_def)
  have "\<bar>x\<bar> < 1" using assms by simp
  then have "binade x - 52 \<le> - 53"
    using binade_below_one [of x] by simp
  then have "q \<le> 2 powi (- 53)"
    unfolding q_def by (intro power_int_increasing) simp_all
  then have qle: "q \<le> 1 / 2 ^ 53"
    by (simp add: power_int_minus_divide)
  have "real_of_int (round_half_even (x / q)) * q \<le> (x / q + 1 / 2) * q"
    using rhe_upper [of "x / q"] q by (intro mult_right_mono) simp_all
  also have "\<dots> = x + q / 2"
    using q by (simp add: field_simps)
  also have "\<dots> \<le> x + 1 / 2 ^ 54"
    using qle by simp
  also have "\<dots> < 1"
    using assms by simp
  finally show ?thesis
    by (simp add: round_double_def q_def)
qed

lemma round_double_just_below_one:
  assumes "1 - 1 / 2 ^ 54 \<le> x" and "x < 1"
  shows "round_double x = 1"
proof -
  have e: "binade x = - 1"
    using assms by (intro binade_half_to_one) simp_all
  define y :: real where "y = x * 2 ^ 53"
  have lo: "2 ^ 53 - 1 / 2 \<le> y" and hi: "y < 2 ^ 53"
    using assms by (simp_all add: y_def field_simps)
  have fl: "\<lfloor>y\<rfloor> = 2 ^ 53 - 1"
    using lo hi by (intro floor_unique) simp_all
  have "round_half_even y = 2 ^ 53"
    using lo by (simp add: round_half_even_def Let_def fl)
  moreover have "x / 2 powi (binade x - 52) = y"
    by (simp add: e y_def power_int_minus_divide)
  ultimately show ?thesis
    by (simp add: round_double_def e power_int_minus_divide)
qed

lemma round_double_from_one:
  assumes "1 \<le> x"
  shows "1 \<le> round_double x"
proof -
  define e where "e = binade x"
  define q :: real where "q = 2 powi (e - 52)"
  have q: "0 < q" by (simp add: q_def)
  have e: "0 \<le> e" and le: "2 powi e \<le> x"
    using assms binade_from_one [of x] by (simp_all add: e_def)
  have "(2::real) powi e = 2 powi 52 * q"
    unfolding q_def by (simp add: power_int_diff)
  then have "2 ^ 52 * q \<le> x"
    using le by simp
  then have "2 ^ 52 \<le> x / q"
    using q by (simp add: pos_le_divide_eq)
  then have "4503599627370496 \<le> x / q"
    by simp
  with rhe_lower [of "x / q"] have "4503599627370496 - 1 / 2 \<le> real_of_int (round_half_even (x / q))"
    by linarith
  then have "4503599627370496 \<le> round_half_even (x / q)"
    by linarith
  then have "4503599627370496 \<le> real_of_int (round_half_even (x / q))"
    by linarith
  then have "(2::real) ^ 52 \<le> real_of_int (round_half_even (x / q))"
    by simp
  then have big: "2 ^ 52 * q \<le> real_of_int (round_half_even (x / q)) * q"
    using q by (intro mult_right_mono) simp_all
  have "(1::real) \<le> 2 powi e"
    using e by simp
  also have "\<dots> = 2 ^ 52 * q"
    unfolding q_def by (simp add: power_int_diff)
  also note big
  finally have "1 \<le> real_of_int (round_half_even (x / q)) * q" .
  then show ?thesis
    by (simp add: round_double_def q_def e_def)
qed

lemma round_double_less_one_iff: "round_double x < 1 \<longleftrightarrow> x < 1 - 1 / 2 ^ 54"
proof (cases "x \<le> 0")
  case True
  then show ?thesis
    using round_double_nonpos [of x] by simp
next
  case pos: False
  show ?thesis
  proof (cases "x < 1 - 1 / 2 ^ 54")
    case True
    then show ?thesis
      using pos round_double_below_one [of x] by simp
  next
    case False
    then show ?thesis
      using round_double_just_below_one [of x] round_double_from_one [of x]
      by (cases "x < 1") simp_all
  qed
qed

lemma float_sub_less_one_iff [simp]: "float_sub a b < 1 \<longleftrightarrow> a - b < 1 - 1 / 2 ^ 54"
  by (simp only: float_sub_def round_double_less_one_iff)

subsection \<open>When the run reaches assembly\<close>

lemma profile_Inr_iff:
  "profile p = Inr req \<longleftrightarrow> check_frequencies p [] = [] \<and> req = assemble p"
  by (auto simp: profile_def verifyParameters_def Let_def)

lemma profile_Inl_iff:
  "profile p = Inl errs \<longleftrightarrow> check_frequencies p [] \<noteq> [] \<and> errs = check_frequencies p []"
  by (auto simp: profile_def verifyParameters_def Let_def)

lemma check_frequencies_flag [simp]:
  "check_frequencies (p\<lparr>include_srslte_src := b\<rparr>) ctx = check_frequencies p ctx"
  by (simp add: check_frequencies_def)

lemma x310_loop_spectrum [simp]: "spectrum (x310_loop p i rs req) = spectrum req"
  by (induction rs arbitrary: i req) (simp_all add: x310_node_pair_def Let_def)

lemma b210_loop_spectrum [simp]: "spectrum (b210_loop p i bs req) = spectrum req"
  by (induction bs arbitrary: i req) (simp_all add: b210_nuc_pair_def Let_def)

lemma b210_loop_links [simp]: "links (b210_loop p i bs req) = links req"
  by (induction bs arbitrary: i req) (simp_all add: b210_nuc_pair_def Let_def)

lemma x310_loop_names:
  "map node_name (nodes (x310_loop p i rs req)) =
     map node_name (nodes req) @
     concat (map (\<lambda>r. [radio_name r @ ''-comp'', radio_name r @ ''-x310'']) rs)"
  by (induction rs arbitrary: i req) (simp_all add: x310_node_pair_def Let_def RawPC_def addService_def)

lemma b210_loop_names:
  "map node_name (nodes (b210_loop p i bs req)) =
     map node_name (nodes req) @ map (\<lambda>b. ''b210-'' @ aggregate_id b @ ''-nuc2'') bs"
  by (induction bs arbitrary: i req) (simp_all add: b210_nuc_pair_def Let_def RawPC_def addService_def)

lemma assemble_names:
  "map node_name (nodes (assemble p)) =
     concat (map (\<lambda>r. [radio_name r @ ''-comp'', radio_name r @ ''-x310'']) (x310_radios p)) @
     map (\<lambda>b. ''b210-'' @ aggregate_id b @ ''-nuc2'') (b210_nodes p)"
  by (simp add: assemble_def Let_def requestSpectrum_def b210_loop_names x310_loop_names makeRequestRSpec_def)

lemma assemble_spectrum:
  "spectrum (assemble p) =
     [\<lparr> freq_low = ul_freq_min p, freq_high = ul_freq_max p, power = 0 \<rparr>,
      \<lparr> freq_low = dl_freq_min p, freq_high = dl_freq_max p, power = 0 \<rparr>]"
  by (simp add: assemble_def Let_def requestSpectrum_def makeRequestRSpec_def)

lemma x310_loop_links:
  "links (x310_loop p i rs req) =
     links req @
     map (\<lambda>(j, r). \<lparr> link_name = ''radio-link-'' @ str_nat j, bandwidth = Some 10000000,
                     members = [MemberInterface (radio_name r @ ''-comp'') ''usrp_if'',
                                MemberNode (radio_name r @ ''-x310'')] \<rparr>)
       (List.enumerate i rs)"
proof (induction rs arbitrary: i req)
  case Nil
  then show ?case by simp
next
  case (Cons r rs)
  show ?case
    by (simp add: Cons.IH x310_node_pair_def Let_def RawPC_def addService_def)
qed

lemma x310_loop_foldl:
  "x310_loop p i rs req =
     foldl (\<lambda>q (j, r). x310_node_pair p j r q) req (List.enumerate i rs)"
proof (induction rs arbitrary: i req)
  case Nil
  then show ?case by simp
next
  case (Cons r rs)
  show ?case
    by (simp add: Cons.IH)
qed

lemma b210_loop_foldl:
  "b210_loop p i bs req =
     foldl (\<lambda>q (j, b). b210_nuc_pair p j b q) req (List.enumerate i bs)"
proof (induction bs arbitrary: i req)
  case Nil
  then show ?case by simp
next
  case (Cons b bs)
  show ?case
    by (simp add: Cons.IH)
qed

text \<open>The default parameter set passes validation.\<close>

lemma default_params_pass: "profile default_params = Inr (assemble default_params)"
  by (simp add: profile_Inr_iff check_frequencies_def default_params_def
        ULDEFLOFREQ_def ULDEFHIFREQ_def DLDEFLOFREQ_def DLDEFHIFREQ_def)

subsection \<open>Node names\<close>

text \<open>
  The three kinds of node name end in five different characters each, so names of
  different kinds never collide; within a kind the name determines the selection.
\<close>

lemma suffix5_neq:
  "length s = 5 \<Longrightarrow> length t = 5 \<Longrightarrow> s \<noteq> t \<Longrightarrow> a @ s \<noteq> b @ t"
  by simp

lemma comp_x310_neq: "a @ ''-comp'' \<noteq> b @ ''-x310''"
  by (rule suffix5_neq) simp_all

lemma comp_nuc2_neq: "a @ ''-comp'' \<noteq> ''b210-'' @ b @ ''-nuc2''"
  using suffix5_neq [of "''-comp''" "''-nuc2''" a "''b210-'' @ b"] by simp

lemma x310_nuc2_neq: "a @ ''-x310'' \<noteq> ''b210-'' @ b @ ''-nuc2''"
  using suffix5_neq [of "''-x310''" "''-nuc2''" a "''b210-'' @ b"] by simp

lemma distinct_x310_names:
  "distinct (concat (map (\<lambda>r. [radio_name r @ ''-comp'', radio_name r @ ''-x310'']) rs))
     \<longleftrightarrow> distinct (map radio_name rs)"
proof (induction rs)
  case Nil
  then show ?case by simp
next
  case (Cons r rs)
  have "radio_name r @ ''-x310'' \<noteq> radio_name r @ ''-comp''"
    using comp_x310_neq [of "radio_name r" "radio_name r"] by metis
  with Cons show ?case
    using comp_x310_neq by (auto simp: image_iff) 
qed

lemma distinct_b210_names:
  "distinct (map (\<lambda>b. ''b210-'' @ aggregate_id b @ ''-nuc2'') bs)
     \<longleftrightarrow> distinct (map aggregate_id bs)"
  by (induction bs) (auto simp: image_iff)

lemma x310_b210_names_disjoint:
  "set (concat (map (\<lambda>r. [radio_name r @ ''-comp'', radio_name r @ ''-x310'']) rs))
     \<inter> set (map (\<lambda>b. ''b210-'' @ aggregate_id b @ ''-nuc2'') bs) = {}"
  using comp_nuc2_neq x310_nuc2_neq by auto

lemma distinct_assemble_names:
  "distinct (map node_name (nodes (assemble p)))
     \<longleftrightarrow> distinct (map radio_name (x310_radios p)) \<and> distinct (map aggregate_id (b210_nodes p))"
proof -
  have "distinct (map node_name (nodes (assemble p))) \<longleftrightarrow>
          distinct (concat (map (\<lambda>r. [radio_name r @ ''-comp'', radio_name r @ ''-x310''])
                      (x310_radios p)))
          \<and> distinct (map (\<lambda>b. ''b210-'' @ aggregate_id b @ ''-nuc2'') (b210_nodes p))"
    unfolding assemble_names distinct_append
    using x310_b210_names_disjoint [of "x310_radios p" "b210_nodes p"] by blast
  then show ?thesis
    by (simp only: distinct_x310_names distinct_b210_names)
qed

subsection \<open>Interfaces, images and storage mounts of the nodes\<close>

lemma assemble_nodes:
  "nodes (assemble p) = nodes (b210_loop p 0 (b210_nodes p) (x310_loop p 0 (x310_radios p) makeRequestRSpec))"
  by (simp add: assemble_def Let_def requestSpectrum_def)

lemma assemble_links:
  "links (assemble p) = links (x310_loop p 0 (x310_radios p) makeRequestRSpec)"
  by (simp add: assemble_def Let_def requestSpectrum_def)

lemma x310_loop_interfaces:
  "map (\<lambda>n. (node_name n, interfaces n)) (nodes (x310_loop p i rs req)) =
     map (\<lambda>n. (node_name n, interfaces n)) (nodes req) @
     concat (map (\<lambda>r. [(radio_name r @ ''-comp'',
                          [\<lparr> if_name = ''usrp_if'',
                             addresses = [IPv4Address ''192.168.40.1'' ''255.255.255.0''] \<rparr>]),
                        (radio_name r @ ''-x310'', [])]) rs)"
  by (induction rs arbitrary: i req)
     (simp_all add: x310_node_pair_def Let_def RawPC_def addService_def)

lemma b210_loop_interfaces:
  "map (\<lambda>n. (node_name n, interfaces n)) (nodes (b210_loop p i bs req)) =
     map (\<lambda>n. (node_name n, interfaces n)) (nodes req) @
     map (\<lambda>b. (''b210-'' @ aggregate_id b @ ''-nuc2'', [])) bs"
  by (induction bs arbitrary: i req)
     (simp_all add: b210_nuc_pair_def Let_def RawPC_def addService_def)

lemma x310_loop_kinds:
  "map (\<lambda>n. (node_name n, component_id n, disk_image n)) (nodes (x310_loop p i rs req)) =
     map (\<lambda>n. (node_name n, component_id n, disk_image n)) (nodes req) @
     concat (map (\<lambda>r. [(radio_name r @ ''-comp'', None, Some SRSLTE_IMG),
                        (radio_name r @ ''-x310'', Some (radio_name r), None)]) rs)"
  by (induction rs arbitrary: i req)
     (simp_all add: x310_node_pair_def Let_def RawPC_def addService_def)

lemma b210_loop_kinds:
  "map (\<lambda>n. (node_name n, component_id n, disk_image n)) (nodes (b210_loop p i bs req)) =
     map (\<lambda>n. (node_name n, component_id n, disk_image n)) (nodes req) @
     map (\<lambda>b. (''b210-'' @ aggregate_id b @ ''-nuc2'', Some ''nuc2'', Some SRSLTE_IMG)) bs"
  by (induction bs arbitrary: i req)
     (simp_all add: b210_nuc_pair_def Let_def RawPC_def addService_def)

lemma x310_loop_mounts:
  "map (\<lambda>n. (disk_image n, blockstores n)) (nodes (x310_loop p i rs req)) =
     map (\<lambda>n. (disk_image n, blockstores n)) (nodes req) @
     concat (map (\<lambda>(j, r).
         [(Some SRSLTE_IMG,
           if include_srslte_src p
           then [\<lparr> bs_name = ''bs-comp-'' @ str_nat j, bs_mount = ''/opt/srslte'',
                   dataset = Some SRSLTE_SRC_DS \<rparr>]
           else []),
          (None, [])]) (List.enumerate i rs))"
  by (induction rs arbitrary: i req)
     (simp_all add: x310_node_pair_def Let_def RawPC_def addService_def)

lemma b210_loop_mounts:
  "map (\<lambda>n. (disk_image n, blockstores n)) (nodes (b210_loop p i bs req)) =
     map (\<lambda>n. (disk_image n, blockstores n)) (nodes req) @
     map (\<lambda>(j, b).
         (Some SRSLTE_IMG,
           if include_srslte_src p
           then [\<lparr> bs_name = ''bs-nuc-'' @ str_nat j, bs_mount = ''/opt/srslte'',
                   dataset = Some SRSLTE_SRC_DS \<rparr>]
           else [])) (List.enumerate i bs)"
  by (induction bs arbitrary: i req)
     (simp_all add: b210_nuc_pair_def Let_def RawPC_def addService_def)

lemma assemble_mounts:
  "map (\<lambda>n. (disk_image n, blockstores n)) (nodes (assemble p)) =
     concat (map (\<lambda>(j, r).
         [(Some SRSLTE_IMG,
           if include_srslte_src p
           then [\<lparr> bs_name = ''bs-comp-'' @ str_nat j, bs_mount = ''/opt/srslte'',
                   dataset = Some SRSLTE_SRC_DS \<rparr>]
           else []),
          (None, [])]) (List.enumerate 0 (x310_radios p))) @
     map (\<lambda>(j, b).
         (Some SRSLTE_IMG,
           if include_srslte_src p
           then [\<lparr> bs_name = ''bs-nuc-'' @ str_nat j, bs_mount = ''/opt/srslte'',
                   dataset = Some SRSLTE_SRC_DS \<rparr>]
           else [])) (List.enumerate 0 (b210_nodes p))"
  by (simp add: assemble_nodes b210_loop_mounts x310_loop_mounts makeRequestRSpec_def
       )

lemma mounts_memberD:
  assumes "n \<in> set (nodes (assemble p))"
  shows "(disk_image n = Some SRSLTE_IMG \<and>
            (\<exists>nm. blockstores n =
               (if include_srslte_src p
                then [\<lparr> bs_name = nm, bs_mount = ''/opt/srslte'', dataset = Some SRSLTE_SRC_DS \<rparr>]
                else [])))
         \<or> (disk_image n = None \<and> blockstores n = [])"
proof -
  from assms have "(disk_image n, blockstores n)
      \<in> set (map (\<lambda>n. (disk_image n, blockstores n)) (nodes (assemble p)))"
    by force
  then show ?thesis
    unfolding assemble_mounts
    by auto
qed

lemma compute_node_count:
  "length (filter (\<lambda>n. disk_image n \<noteq> None) (nodes (assemble p)))
     = length (x310_radios p) + length (b210_nodes p)"
proof -
  have a: "length (filter (\<lambda>n. disk_image n \<noteq> None) ns)
           = length (filter (\<lambda>x. fst x \<noteq> None) (map (\<lambda>n. (disk_image n, blockstores n)) ns))"
    for ns :: "Node list"
    by (induction ns) simp_all
  have b: "length (filter (\<lambda>x. fst x \<noteq> None) (concat (map (\<lambda>(j, r). [(Some u, f j), (None, [])]) xs)))
           = length xs" for u :: string and f :: "nat \<Rightarrow> Blockstore list" and xs :: "(nat \<times> x310_radio) list"
    by (induction xs) auto
  have c: "length (filter (\<lambda>x. fst x \<noteq> None) (map (\<lambda>(j, r). (Some u, f j)) xs))
           = length xs" for u :: string and f :: "nat \<Rightarrow> Blockstore list" and xs :: "(nat \<times> b210_node) list"
    by (induction xs) auto
  show ?thesis
    unfolding a assemble_mounts filter_append length_append b c
    by simp
qed

subsection \<open>The source flag\<close>

text \<open>
  Running a loop with the flag on and then emptying the storage mounts of every node gives
  the nodes of the run with the flag off.
\<close>

lemma x310_loop_flag_nodes:
  "map (\<lambda>n. n\<lparr>blockstores := []\<rparr>) (nodes req) = nodes req' \<Longrightarrow>
   map (\<lambda>n. n\<lparr>blockstores := []\<rparr>) (nodes (x310_loop (p\<lparr>include_srslte_src := True\<rparr>) i rs req))
     = nodes (x310_loop (p\<lparr>include_srslte_src := False\<rparr>) i rs req')"
proof (induction rs arbitrary: i req req')
  case Nil
  then show ?case by simp
next
  case (Cons r rs)
  have "map (\<lambda>n. n\<lparr>blockstores := []\<rparr>) (nodes (x310_node_pair (p\<lparr>include_srslte_src := True\<rparr>) i r req))
          = nodes (x310_node_pair (p\<lparr>include_srslte_src := False\<rparr>) i r req')"
    using Cons.prems
    by (simp add: x310_node_pair_def Let_def RawPC_def addService_def)
  then show ?case
    by (simp add: Cons.IH)
qed

lemma b210_loop_flag_nodes:
  "map (\<lambda>n. n\<lparr>blockstores := []\<rparr>) (nodes req) = nodes req' \<Longrightarrow>
   map (\<lambda>n. n\<lparr>blockstores := []\<rparr>) (nodes (b210_loop (p\<lparr>include_srslte_src := True\<rparr>) i bs req))
     = nodes (b210_loop (p\<lparr>include_srslte_src := False\<rparr>) i bs req')"
proof (induction bs arbitrary: i req req')
  case Nil
  then show ?case by simp
next
  case (Cons b bs)
  have "map (\<lambda>n. n\<lparr>blockstores := []\<rparr>) (nodes (b210_nuc_pair (p\<lparr>include_srslte_src := True\<rparr>) i b req))
          = nodes (b210_nuc_pair (p\<lparr>include_srslte_src := False\<rparr>) i b req')"
    using Cons.prems
    by (simp add: b210_nuc_pair_def Let_def RawPC_def addService_def)
  then show ?case
    by (simp add: Cons.IH)
qed

lemma assemble_flag_nodes:
  "map (\<lambda>n. n\<lparr>blockstores := []\<rparr>) (nodes (assemble (p\<lparr>include_srslte_src := True\<rparr>)))
     = nodes (assemble (p\<lparr>include_srslte_src := False\<rparr>))"
proof -
  have "map (\<lambda>n. n\<lparr>blockstores := []\<rparr>) (nodes makeRequestRSpec) = nodes makeRequestRSpec"
    by (simp add: makeRequestRSpec_def)
  then have "map (\<lambda>n. n\<lparr>blockstores := []\<rparr>)
               (nodes (x310_loop (p\<lparr>include_srslte_src := True\<rparr>) 0 (x310_radios p) makeRequestRSpec))
             = nodes (x310_loop (p\<lparr>include_srslte_src := False\<rparr>) 0 (x310_radios p) makeRequestRSpec)"
    by (rule x310_loop_flag_nodes)
  then have "map (\<lambda>n. n\<lparr>blockstores := []\<rparr>)
               (nodes (b210_loop (p\<lparr>include_srslte_src := True\<rparr>) 0 (b210_nodes p)
                  (x310_loop (p\<lparr>include_srslte_src := True\<rparr>) 0 (x310_radios p) makeRequestRSpec)))
             = nodes (b210_loop (p\<lparr>include_srslte_src := False\<rparr>) 0 (b210_nodes p)
                  (x310_loop (p\<lparr>include_srslte_src := False\<rparr>) 0 (x310_radios p) makeRequestRSpec))"
    by (rule b210_loop_flag_nodes)
  then show ?thesis
    by (simp add: assemble_nodes)
qed

lemma assemble_flag_links:
  "links (assemble (p\<lparr>include_srslte_src := b\<rparr>)) = links (assemble p)"
  by (simp add: assemble_links x310_loop_links)

section \<open>The claims\<close>

subsection \<open>Validation\<close>

text \<open>
  C1. Whenever \<^verbatim>\<open>ul_freq_min\<close> or \<^verbatim>\<open>ul_freq_max\<close> lies outside [2500, 2570],
  the reported errors contain the uplink band error, which names the fields
  \<^verbatim>\<open>ul_freq_min\<close> and \<^verbatim>\<open>ul_freq_max\<close>; whenever \<^verbatim>\<open>dl_freq_min\<close> or
  \<^verbatim>\<open>dl_freq_max\<close> lies outside [2620, 2690], they contain the downlink band error, which
  names \<^verbatim>\<open>dl_freq_min\<close> and \<^verbatim>\<open>dl_freq_max\<close>.
\<close>

theorem band_errors_reported:
  "(ul_freq_min p < 2500 \<or> ul_freq_min p > 2570 \<or> ul_freq_max p < 2500 \<or> ul_freq_max p > 2570
      \<longrightarrow> ParameterError ''Band 7 uplink frequencies must be between 2500 and 2570 MHz''
            [''ul_freq_min'', ''ul_freq_max''] \<in> set (check_frequencies p []))
   \<and> (dl_freq_min p < 2620 \<or> dl_freq_min p > 2690 \<or> dl_freq_max p < 2620 \<or> dl_freq_max p > 2690
      \<longrightarrow> ParameterError ''Band 7 downlink frequencies must be between 2620 and 2690 MHz''
            [''dl_freq_min'', ''dl_freq_max''] \<in> set (check_frequencies p []))"
  by (simp add: check_frequencies_def reportError_def Let_def ul_band_error_def dl_band_error_def)

theorem band_errors_reported_witness:
  "ul_freq_min (default_params\<lparr>ul_freq_min := 2499, dl_freq_max := 2691\<rparr>) < 2500
   \<and> dl_freq_max (default_params\<lparr>ul_freq_min := 2499, dl_freq_max := 2691\<rparr>) > 2690
   \<and> ParameterError ''Band 7 uplink frequencies must be between 2500 and 2570 MHz''
            [''ul_freq_min'', ''ul_freq_max'']
       \<in> set (check_frequencies (default_params\<lparr>ul_freq_min := 2499, dl_freq_max := 2691\<rparr>) [])
   \<and> ParameterError ''Band 7 downlink frequencies must be between 2620 and 2690 MHz''
            [''dl_freq_min'', ''dl_freq_max'']
       \<in> set (check_frequencies (default_params\<lparr>ul_freq_min := 2499, dl_freq_max := 2691\<rparr>) [])"
  using band_errors_reported [of "default_params\<lparr>ul_freq_min := 2499, dl_freq_max := 2691\<rparr>"]
  by (simp add: default_params_def)

text \<open>
  C2. For each of the two pairs, the separation error naming that pair's two fields is
  reported exactly when the difference max - min that the program computes, a double, is less
  than 1; that is exactly when the exact difference is less than \<open>1 - 1 / 2 ^ 54\<close>.
  A separation of exactly 1 does not report it.
\<close>

theorem separation_errors_reported:
  "(ParameterError ''Minimum and maximum frequencies must be separated by at least 1 MHz''
        [''ul_freq_min'', ''ul_freq_max''] \<in> set (check_frequencies p [])
      \<longleftrightarrow> float_sub (ul_freq_max p) (ul_freq_min p) < 1)
   \<and> (ParameterError ''Minimum and maximum frequencies must be separated by at least 1 MHz''
        [''dl_freq_min'', ''dl_freq_max''] \<in> set (check_frequencies p [])
      \<longleftrightarrow> float_sub (dl_freq_max p) (dl_freq_min p) < 1)
   \<and> (float_sub (ul_freq_max p) (ul_freq_min p) < 1
      \<longleftrightarrow> ul_freq_max p - ul_freq_min p < 1 - 1 / 2 ^ 54)
   \<and> (float_sub (dl_freq_max p) (dl_freq_min p) < 1
      \<longleftrightarrow> dl_freq_max p - dl_freq_min p < 1 - 1 / 2 ^ 54)
   \<and> (ul_freq_max p - ul_freq_min p = 1
      \<longrightarrow> ParameterError ''Minimum and maximum frequencies must be separated by at least 1 MHz''
            [''ul_freq_min'', ''ul_freq_max''] \<notin> set (check_frequencies p []))
   \<and> (dl_freq_max p - dl_freq_min p = 1
      \<longrightarrow> ParameterError ''Minimum and maximum frequencies must be separated by at least 1 MHz''
            [''dl_freq_min'', ''dl_freq_max''] \<notin> set (check_frequencies p []))"
  by (simp add: check_frequencies_def reportError_def Let_def
        ul_band_error_def dl_band_error_def ul_sep_error_def dl_sep_error_def)

theorem separation_errors_reported_witness:
  "ul_freq_max (default_params\<lparr>ul_freq_max := 2500.5, dl_freq_max := 2621\<rparr>)
     - ul_freq_min (default_params\<lparr>ul_freq_max := 2500.5, dl_freq_max := 2621\<rparr>) < 1 - 1 / 2 ^ 54
   \<and> dl_freq_max (default_params\<lparr>ul_freq_max := 2500.5, dl_freq_max := 2621\<rparr>)
     - dl_freq_min (default_params\<lparr>ul_freq_max := 2500.5, dl_freq_max := 2621\<rparr>) = 1
   \<and> ParameterError ''Minimum and maximum frequencies must be separated by at least 1 MHz''
        [''ul_freq_min'', ''ul_freq_max'']
       \<in> set (check_frequencies (default_params\<lparr>ul_freq_max := 2500.5, dl_freq_max := 2621\<rparr>) [])
   \<and> ParameterError ''Minimum and maximum frequencies must be separated by at least 1 MHz''
        [''dl_freq_min'', ''dl_freq_max'']
       \<notin> set (check_frequencies (default_params\<lparr>ul_freq_max := 2500.5, dl_freq_max := 2621\<rparr>) [])"
  using separation_errors_reported [of "default_params\<lparr>ul_freq_max := 2500.5, dl_freq_max := 2621\<rparr>"]
  by (simp add: default_params_def ULDEFLOFREQ_def DLDEFLOFREQ_def)

text \<open>
  C2, with the exact difference in place of the computed one: the doubles nearest to 0.059
  and 1.059 differ by \<open>1 - 1 / 2 ^ 54\<close>, which is less than 1, but their computed
  difference is 1.0 and no separation error is reported; only the band error is.
\<close>

theorem separation_rounding_counterexample:
  "ul_freq_max (default_params\<lparr>ul_freq_min := 1062849512059437 / 2 ^ 54,
                                ul_freq_max := 4769312005385355 / 2 ^ 52\<rparr>)
     - ul_freq_min (default_params\<lparr>ul_freq_min := 1062849512059437 / 2 ^ 54,
                                   ul_freq_max := 4769312005385355 / 2 ^ 52\<rparr>) < 1
   \<and> float_sub (4769312005385355 / 2 ^ 52) (1062849512059437 / 2 ^ 54) = 1
   \<and> ParameterError ''Minimum and maximum frequencies must be separated by at least 1 MHz''
        [''ul_freq_min'', ''ul_freq_max'']
       \<notin> set (check_frequencies (default_params\<lparr>ul_freq_min := 1062849512059437 / 2 ^ 54,
                                                   ul_freq_max := 4769312005385355 / 2 ^ 52\<rparr>) [])
   \<and> check_frequencies (default_params\<lparr>ul_freq_min := 1062849512059437 / 2 ^ 54,
                                         ul_freq_max := 4769312005385355 / 2 ^ 52\<rparr>) []
       = [ParameterError ''Band 7 uplink frequencies must be between 2500 and 2570 MHz''
            [''ul_freq_min'', ''ul_freq_max'']]"
proof -
  have "float_sub (4769312005385355 / 2 ^ 52) (1062849512059437 / 2 ^ 54) = 1"
    unfolding float_sub_def by (rule round_double_just_below_one) simp_all
  then show ?thesis
    by (simp add: check_frequencies_def reportError_def Let_def default_params_def
          ul_band_error_def dl_band_error_def ul_sep_error_def dl_sep_error_def
          DLDEFLOFREQ_def DLDEFHIFREQ_def)
qed



subsection \<open>Assembly\<close>

text \<open>
  C4. In a run that passes validation the node names are, in order, the pair
  \<^verbatim>\<open><radio_name>-comp\<close>, \<^verbatim>\<open><radio_name>-x310\<close> of every rooftop entry and then
  \<^verbatim>\<open>b210-<aggregate_id>-nuc2\<close> of every fixed-endpoint entry. They are pairwise
  distinct when the selected radio names are pairwise distinct and the selected aggregate
  ids are pairwise distinct. The lists are multi-valued with no check against repetition, and
  a radio selected twice gives the same two names twice.
\<close>

theorem node_names_distinct:
  "profile p = Inr req \<Longrightarrow>
     map node_name (nodes req) =
       concat (map (\<lambda>r. [radio_name r @ ''-comp'', radio_name r @ ''-x310'']) (x310_radios p)) @
       map (\<lambda>b. ''b210-'' @ aggregate_id b @ ''-nuc2'') (b210_nodes p)
     \<and> (distinct (map radio_name (x310_radios p)) \<and> distinct (map aggregate_id (b210_nodes p))
          \<longrightarrow> distinct (map node_name (nodes req)))"
proof -
  assume "profile p = Inr req"
  then have req: "req = assemble p"
    by (simp add: profile_Inr_iff)
  show ?thesis
    unfolding req using assemble_names [of p] distinct_assemble_names [of p] by blast
qed

theorem node_names_distinct_witness:
  "profile (default_params\<lparr>x310_radios := [\<lparr>radio_name = ''cellsdr1-browning''\<rparr>,
                                            \<lparr>radio_name = ''cellsdr1-meb''\<rparr>],
                             b210_nodes := [\<lparr>aggregate_id = ''web''\<rparr>,
                                            \<lparr>aggregate_id = ''bookstore''\<rparr>]\<rparr>)
     = Inr (assemble (default_params\<lparr>x310_radios := [\<lparr>radio_name = ''cellsdr1-browning''\<rparr>,
                                            \<lparr>radio_name = ''cellsdr1-meb''\<rparr>],
                             b210_nodes := [\<lparr>aggregate_id = ''web''\<rparr>,
                                            \<lparr>aggregate_id = ''bookstore''\<rparr>]\<rparr>))
   \<and> distinct (map node_name (nodes (assemble (default_params\<lparr>x310_radios := [\<lparr>radio_name = ''cellsdr1-browning''\<rparr>,
                                            \<lparr>radio_name = ''cellsdr1-meb''\<rparr>],
                             b210_nodes := [\<lparr>aggregate_id = ''web''\<rparr>,
                                            \<lparr>aggregate_id = ''bookstore''\<rparr>]\<rparr>))))"
proof -
  let ?p = "default_params\<lparr>x310_radios := [\<lparr>radio_name = ''cellsdr1-browning''\<rparr>,
                                            \<lparr>radio_name = ''cellsdr1-meb''\<rparr>],
                             b210_nodes := [\<lparr>aggregate_id = ''web''\<rparr>,
                                            \<lparr>aggregate_id = ''bookstore''\<rparr>]\<rparr>"
  have ok: "profile ?p = Inr (assemble ?p)"
    by (simp add: profile_Inr_iff check_frequencies_def default_params_def
          ULDEFLOFREQ_def ULDEFHIFREQ_def DLDEFLOFREQ_def DLDEFHIFREQ_def)
  show ?thesis
    using ok node_names_distinct [OF ok] by simp
qed

text \<open>
  C4, for arbitrary lists of selections: distinctness fails when the same rooftop radio is
  selected twice. Validation passes and the request holds each of its two names twice.
\<close>

theorem duplicate_selection_counterexample:
  "profile (default_params\<lparr>x310_radios := [\<lparr>radio_name = ''cellsdr1-browning''\<rparr>,
                                           \<lparr>radio_name = ''cellsdr1-browning''\<rparr>]\<rparr>)
     = Inr (assemble (default_params\<lparr>x310_radios := [\<lparr>radio_name = ''cellsdr1-browning''\<rparr>,
                                           \<lparr>radio_name = ''cellsdr1-browning''\<rparr>]\<rparr>))
   \<and> map node_name (nodes (assemble (default_params\<lparr>x310_radios := [\<lparr>radio_name = ''cellsdr1-browning''\<rparr>,
                                           \<lparr>radio_name = ''cellsdr1-browning''\<rparr>]\<rparr>)))
     = [''cellsdr1-browning-comp'', ''cellsdr1-browning-x310'',
        ''cellsdr1-browning-comp'', ''cellsdr1-browning-x310'']
   \<and> \<not> distinct (map node_name (nodes (assemble (default_params\<lparr>x310_radios := [\<lparr>radio_name = ''cellsdr1-browning''\<rparr>,
                                           \<lparr>radio_name = ''cellsdr1-browning''\<rparr>]\<rparr>))))"
  by (simp add: profile_Inr_iff check_frequencies_def default_params_def assemble_names
        ULDEFLOFREQ_def ULDEFHIFREQ_def DLDEFLOFREQ_def DLDEFHIFREQ_def)

text \<open>
  C5. With exactly the rooftop selection \<^verbatim>\<open>cellsdr1-browning\<close> and the fixed-endpoint
  selection \<^verbatim>\<open>web\<close>, a run that passes validation produces three nodes: the paired
  compute node \<^verbatim>\<open>cellsdr1-browning-comp\<close> (with the disk image), the radio node
  \<^verbatim>\<open>cellsdr1-browning-x310\<close> (component \<^verbatim>\<open>cellsdr1-browning\<close>, no image) and the
  fixed-endpoint compute node \<^verbatim>\<open>b210-web-nuc2\<close>; one link, between the first two;
  and two spectrum reservations.
\<close>

theorem one_radio_one_endpoint:
  "profile p = Inr req \<Longrightarrow>
   x310_radios p = [\<lparr>radio_name = ''cellsdr1-browning''\<rparr>] \<Longrightarrow>
   b210_nodes p = [\<lparr>aggregate_id = ''web''\<rparr>] \<Longrightarrow>
     map (\<lambda>n. (node_name n, component_id n, disk_image n)) (nodes req) =
       [(''cellsdr1-browning-comp'', None, Some SRSLTE_IMG),
        (''cellsdr1-browning-x310'', Some ''cellsdr1-browning'', None),
        (''b210-web-nuc2'', Some ''nuc2'', Some SRSLTE_IMG)]
     \<and> links req =
       [\<lparr> link_name = ''radio-link-0'', bandwidth = Some 10000000,
          members = [MemberInterface ''cellsdr1-browning-comp'' ''usrp_if'',
                     MemberNode ''cellsdr1-browning-x310''] \<rparr>]
     \<and> length (spectrum req) = 2"
proof -
  assume run: "profile p = Inr req"
    and rs: "x310_radios p = [\<lparr>radio_name = ''cellsdr1-browning''\<rparr>]"
    and bs: "b210_nodes p = [\<lparr>aggregate_id = ''web''\<rparr>]"
  from run have req: "req = assemble p"
    by (simp add: profile_Inr_iff)
  have n: "map (\<lambda>n. (node_name n, component_id n, disk_image n)) (nodes (assemble p)) =
       [(''cellsdr1-browning-comp'', None, Some SRSLTE_IMG),
        (''cellsdr1-browning-x310'', Some ''cellsdr1-browning'', None),
        (''b210-web-nuc2'', Some ''nuc2'', Some SRSLTE_IMG)]"
    unfolding assemble_nodes b210_loop_kinds x310_loop_kinds
    by (simp add: rs bs makeRequestRSpec_def)
  have l: "links (assemble p) =
       [\<lparr> link_name = ''radio-link-0'', bandwidth = Some 10000000,
          members = [MemberInterface ''cellsdr1-browning-comp'' ''usrp_if'',
                     MemberNode ''cellsdr1-browning-x310''] \<rparr>]"
    unfolding assemble_links x310_loop_links
    by (simp add: rs makeRequestRSpec_def str_nat_0)
  have s: "length (spectrum (assemble p)) = 2"
    by (simp add: assemble_spectrum)
  show ?thesis
    unfolding req using n l s by blast
qed

theorem one_radio_one_endpoint_witness:
  "profile (default_params\<lparr>x310_radios := [\<lparr>radio_name = ''cellsdr1-browning''\<rparr>],
                             b210_nodes := [\<lparr>aggregate_id = ''web''\<rparr>]\<rparr>)
     = Inr (assemble (default_params\<lparr>x310_radios := [\<lparr>radio_name = ''cellsdr1-browning''\<rparr>],
                             b210_nodes := [\<lparr>aggregate_id = ''web''\<rparr>]\<rparr>))
   \<and> map node_name (nodes (assemble (default_params\<lparr>x310_radios := [\<lparr>radio_name = ''cellsdr1-browning''\<rparr>],
                             b210_nodes := [\<lparr>aggregate_id = ''web''\<rparr>]\<rparr>)))
     = [''cellsdr1-browning-comp'', ''cellsdr1-browning-x310'', ''b210-web-nuc2'']
   \<and> length (links (assemble (default_params\<lparr>x310_radios := [\<lparr>radio_name = ''cellsdr1-browning''\<rparr>],
                             b210_nodes := [\<lparr>aggregate_id = ''web''\<rparr>]\<rparr>))) = 1
   \<and> length (spectrum (assemble (default_params\<lparr>x310_radios := [\<lparr>radio_name = ''cellsdr1-browning''\<rparr>],
                             b210_nodes := [\<lparr>aggregate_id = ''web''\<rparr>]\<rparr>))) = 2"
proof -
  let ?p = "default_params\<lparr>x310_radios := [\<lparr>radio_name = ''cellsdr1-browning''\<rparr>],
                             b210_nodes := [\<lparr>aggregate_id = ''web''\<rparr>]\<rparr>"
  have ok: "profile ?p = Inr (assemble ?p)"
    by (simp add: profile_Inr_iff check_frequencies_def default_params_def
          ULDEFLOFREQ_def ULDEFHIFREQ_def DLDEFLOFREQ_def DLDEFHIFREQ_def)
  have "map (fst \<circ> (\<lambda>n. (node_name n, component_id n, disk_image n))) (nodes (assemble ?p))
          = [''cellsdr1-browning-comp'', ''cellsdr1-browning-x310'', ''b210-web-nuc2'']"
    unfolding map_map [symmetric] using one_radio_one_endpoint [OF ok] by simp
  then show ?thesis
    using ok one_radio_one_endpoint [OF ok] by (simp add: comp_def)
qed

text \<open>
  C6. With no rooftop radio and no fixed endpoint selected, a run that passes validation
  produces a request with no node, no link, no storage mount and exactly two spectrum
  reservations.
\<close>

theorem empty_selection_request:
  "profile p = Inr req \<Longrightarrow> x310_radios p = [] \<Longrightarrow> b210_nodes p = [] \<Longrightarrow>
     nodes req = [] \<and> links req = [] \<and> length (spectrum req) = 2
     \<and> concat (map blockstores (nodes req)) = []"
  by (simp add: profile_Inr_iff assemble_def Let_def requestSpectrum_def makeRequestRSpec_def)

theorem empty_selection_request_witness:
  "profile default_params = Inr (assemble default_params)
   \<and> nodes (assemble default_params) = [] \<and> links (assemble default_params) = []
   \<and> length (spectrum (assemble default_params)) = 2"
proof -
  note ok = default_params_pass
  show ?thesis
    using ok empty_selection_request [OF ok] by (simp add: default_params_def)
qed

text \<open>
  C7. For a parameter set that passes validation, the runs with the source flag on and off
  both produce a request. Emptying the storage mounts of the nodes of the first gives the
  nodes of the second, and links and spectrum are equal. With the flag off no node has a
  storage mount; with the flag on every compute node (a node with a disk image) has exactly
  one, the source dataset mounted at \<^verbatim>\<open>/opt/srslte\<close>, every other node has none, and
  there is one compute node per selected rooftop radio and one per selected endpoint.
\<close>

theorem source_flag_only_adds_mounts:
  "profile p = Inr req \<Longrightarrow>
     profile (p\<lparr>include_srslte_src := True\<rparr>) = Inr (assemble (p\<lparr>include_srslte_src := True\<rparr>))
     \<and> profile (p\<lparr>include_srslte_src := False\<rparr>) = Inr (assemble (p\<lparr>include_srslte_src := False\<rparr>))
     \<and> map (\<lambda>n. n\<lparr>blockstores := []\<rparr>) (nodes (assemble (p\<lparr>include_srslte_src := True\<rparr>)))
         = nodes (assemble (p\<lparr>include_srslte_src := False\<rparr>))
     \<and> links (assemble (p\<lparr>include_srslte_src := True\<rparr>))
         = links (assemble (p\<lparr>include_srslte_src := False\<rparr>))
     \<and> spectrum (assemble (p\<lparr>include_srslte_src := True\<rparr>))
         = spectrum (assemble (p\<lparr>include_srslte_src := False\<rparr>))
     \<and> (\<forall>n \<in> set (nodes (assemble (p\<lparr>include_srslte_src := False\<rparr>))). blockstores n = [])
     \<and> (\<forall>n \<in> set (nodes (assemble (p\<lparr>include_srslte_src := True\<rparr>))).
           (disk_image n \<noteq> None \<longrightarrow>
              (\<exists>nm. blockstores n =
                 [\<lparr> bs_name = nm, bs_mount = ''/opt/srslte'',
                    dataset = Some ''urn:publicid:IDN+emulab.net:powderteam+imdataset+srslte-src-v19'' \<rparr>]))
           \<and> (disk_image n = None \<longrightarrow> blockstores n = []))
     \<and> length (filter (\<lambda>n. disk_image n \<noteq> None) (nodes (assemble (p\<lparr>include_srslte_src := True\<rparr>))))
         = length (x310_radios p) + length (b210_nodes p)"
proof -
  assume "profile p = Inr req"
  then have pass: "check_frequencies p [] = []"
    by (simp add: profile_Inr_iff)
  have runs: "profile (p\<lparr>include_srslte_src := b\<rparr>) = Inr (assemble (p\<lparr>include_srslte_src := b\<rparr>))" for b
    using pass by (simp add: profile_Inr_iff)
  have off: "\<forall>n \<in> set (nodes (assemble (p\<lparr>include_srslte_src := False\<rparr>))). blockstores n = []"
    using mounts_memberD [of _ "p\<lparr>include_srslte_src := False\<rparr>"] by auto
  have on: "\<forall>n \<in> set (nodes (assemble (p\<lparr>include_srslte_src := True\<rparr>))).
           (disk_image n \<noteq> None \<longrightarrow>
              (\<exists>nm. blockstores n =
                 [\<lparr> bs_name = nm, bs_mount = ''/opt/srslte'',
                    dataset = Some ''urn:publicid:IDN+emulab.net:powderteam+imdataset+srslte-src-v19'' \<rparr>]))
           \<and> (disk_image n = None \<longrightarrow> blockstores n = [])"
  proof
    fix n
    assume "n \<in> set (nodes (assemble (p\<lparr>include_srslte_src := True\<rparr>)))"
    from mounts_memberD [OF this]
    show "(disk_image n \<noteq> None \<longrightarrow>
              (\<exists>nm. blockstores n =
                 [\<lparr> bs_name = nm, bs_mount = ''/opt/srslte'',
                    dataset = Some ''urn:publicid:IDN+emulab.net:powderteam+imdataset+srslte-src-v19'' \<rparr>]))
           \<and> (disk_image n = None \<longrightarrow> blockstores n = [])"
      by (auto simp: SRSLTE_SRC_DS_def SRSLTE_IMG_def)
  qed
  have cnt: "length (filter (\<lambda>n. disk_image n \<noteq> None) (nodes (assemble (p\<lparr>include_srslte_src := True\<rparr>))))
         = length (x310_radios p) + length (b210_nodes p)"
    using compute_node_count [of "p\<lparr>include_srslte_src := True\<rparr>"] by simp
  have sp: "spectrum (assemble (p\<lparr>include_srslte_src := True\<rparr>))
         = spectrum (assemble (p\<lparr>include_srslte_src := False\<rparr>))"
    by (simp add: assemble_spectrum)
  have ln: "links (assemble (p\<lparr>include_srslte_src := True\<rparr>))
         = links (assemble (p\<lparr>include_srslte_src := False\<rparr>))"
    by (simp add: assemble_flag_links)
  from runs [of True] runs [of False] assemble_flag_nodes [of p] ln sp off on cnt
  show ?thesis by blast
qed

theorem source_flag_only_adds_mounts_witness:
  "profile (default_params\<lparr>x310_radios := [\<lparr>radio_name = ''cellsdr1-browning''\<rparr>],
                             b210_nodes := [\<lparr>aggregate_id = ''web''\<rparr>]\<rparr>)
     = Inr (assemble (default_params\<lparr>x310_radios := [\<lparr>radio_name = ''cellsdr1-browning''\<rparr>],
                             b210_nodes := [\<lparr>aggregate_id = ''web''\<rparr>]\<rparr>))
   \<and> map (\<lambda>n. n\<lparr>blockstores := []\<rparr>)
        (nodes (assemble (default_params\<lparr>x310_radios := [\<lparr>radio_name = ''cellsdr1-browning''\<rparr>],
                             b210_nodes := [\<lparr>aggregate_id = ''web''\<rparr>],
                             include_srslte_src := True\<rparr>)))
     = nodes (assemble (default_params\<lparr>x310_radios := [\<lparr>radio_name = ''cellsdr1-browning''\<rparr>],
                             b210_nodes := [\<lparr>aggregate_id = ''web''\<rparr>],
                             include_srslte_src := False\<rparr>))
   \<and> length (filter (\<lambda>n. disk_image n \<noteq> None)
        (nodes (assemble (default_params\<lparr>x310_radios := [\<lparr>radio_name = ''cellsdr1-browning''\<rparr>],
                             b210_nodes := [\<lparr>aggregate_id = ''web''\<rparr>],
                             include_srslte_src := True\<rparr>)))) = 2"
proof -
  let ?p = "default_params\<lparr>x310_radios := [\<lparr>radio_name = ''cellsdr1-browning''\<rparr>],
                             b210_nodes := [\<lparr>aggregate_id = ''web''\<rparr>]\<rparr>"
  have ok: "profile ?p = Inr (assemble ?p)"
    by (simp add: profile_Inr_iff check_frequencies_def default_params_def
          ULDEFLOFREQ_def ULDEFHIFREQ_def DLDEFLOFREQ_def DLDEFHIFREQ_def)
  show ?thesis
    using ok source_flag_only_adds_mounts [OF ok] by simp
qed

text \<open>
  C8. In a run that passes validation the request is built from the empty request by the
  rooftop builder over the selected radios in input order with indices 0, 1, 2, ..., then the
  fixed-endpoint builder over the selected sites in input order with indices again from 0,
  then the uplink and the downlink spectrum reservation. The links are therefore named
  \<^verbatim>\<open>radio-link-0\<close>, \<^verbatim>\<open>radio-link-1\<close>, ... and the spectrum list is uplink, downlink.
\<close>

theorem assembly_order:
  "profile p = Inr req \<Longrightarrow>
     req =
       requestSpectrum (dl_freq_min p) (dl_freq_max p) 0
         (requestSpectrum (ul_freq_min p) (ul_freq_max p) 0
           (foldl (\<lambda>q (i, b). b210_nuc_pair p i b q)
              (foldl (\<lambda>q (i, r). x310_node_pair p i r q) makeRequestRSpec
                 (zip [0 ..< length (x310_radios p)] (x310_radios p)))
              (zip [0 ..< length (b210_nodes p)] (b210_nodes p))))
     \<and> map link_name (links req)
         = map (\<lambda>i. ''radio-link-'' @ str_nat i) [0 ..< length (x310_radios p)]
     \<and> spectrum req =
         [\<lparr> freq_low = ul_freq_min p, freq_high = ul_freq_max p, power = 0 \<rparr>,
          \<lparr> freq_low = dl_freq_min p, freq_high = dl_freq_max p, power = 0 \<rparr>]"
proof -
  assume "profile p = Inr req"
  then have req: "req = assemble p"
    by (simp add: profile_Inr_iff)
  have a: "assemble p =
       requestSpectrum (dl_freq_min p) (dl_freq_max p) 0
         (requestSpectrum (ul_freq_min p) (ul_freq_max p) 0
           (foldl (\<lambda>q (i, b). b210_nuc_pair p i b q)
              (foldl (\<lambda>q (i, r). x310_node_pair p i r q) makeRequestRSpec
                 (zip [0 ..< length (x310_radios p)] (x310_radios p)))
              (zip [0 ..< length (b210_nodes p)] (b210_nodes p))))"
    by (simp add: assemble_def Let_def x310_loop_foldl b210_loop_foldl enumerate_eq_zip)
  have "map link_name (links (assemble p))
         = map ((\<lambda>i. ''radio-link-'' @ str_nat i) \<circ> fst) (List.enumerate 0 (x310_radios p))"
    by (simp add: assemble_links x310_loop_links makeRequestRSpec_def comp_def case_prod_unfold)
  also have "\<dots> = map (\<lambda>i. ''radio-link-'' @ str_nat i) [0 ..< length (x310_radios p)]"
    unfolding map_map [symmetric] by (simp del: map_map)
  finally have b: "map link_name (links (assemble p))
         = map (\<lambda>i. ''radio-link-'' @ str_nat i) [0 ..< length (x310_radios p)]" .
  show ?thesis
    unfolding req using a b assemble_spectrum [of p] by blast
qed

theorem assembly_order_witness:
  "profile (default_params\<lparr>x310_radios := [\<lparr>radio_name = ''cellsdr1-browning''\<rparr>,
                                            \<lparr>radio_name = ''cellsdr1-meb''\<rparr>],
                             b210_nodes := [\<lparr>aggregate_id = ''web''\<rparr>]\<rparr>)
     = Inr (assemble (default_params\<lparr>x310_radios := [\<lparr>radio_name = ''cellsdr1-browning''\<rparr>,
                                            \<lparr>radio_name = ''cellsdr1-meb''\<rparr>],
                             b210_nodes := [\<lparr>aggregate_id = ''web''\<rparr>]\<rparr>))
   \<and> map link_name (links (assemble (default_params\<lparr>x310_radios := [\<lparr>radio_name = ''cellsdr1-browning''\<rparr>,
                                            \<lparr>radio_name = ''cellsdr1-meb''\<rparr>],
                             b210_nodes := [\<lparr>aggregate_id = ''web''\<rparr>]\<rparr>)))
     = [''radio-link-0'', ''radio-link-1'']"
proof -
  let ?p = "default_params\<lparr>x310_radios := [\<lparr>radio_name = ''cellsdr1-browning''\<rparr>,
                                            \<lparr>radio_name = ''cellsdr1-meb''\<rparr>],
                             b210_nodes := [\<lparr>aggregate_id = ''web''\<rparr>]\<rparr>"
  have ok: "profile ?p = Inr (assemble ?p)"
    by (simp add: profile_Inr_iff check_frequencies_def default_params_def
          ULDEFLOFREQ_def ULDEFHIFREQ_def DLDEFLOFREQ_def DLDEFHIFREQ_def)
  have idx: "[0 ..< length (x310_radios ?p)] = [0, Suc 0]"
    by (simp add: upt_rec)
  have "map link_name (links (assemble ?p))
          = map (\<lambda>i. ''radio-link-'' @ str_nat i) [0 ..< length (x310_radios ?p)]"
    using assembly_order [OF ok] by blast
  then have "map link_name (links (assemble ?p)) = [''radio-link-0'', ''radio-link-1'']"
    unfolding idx by (simp add: str_nat_0 str_nat_1)
  with ok show ?thesis
    by blast
qed

text \<open>
  C9. Whatever the index and the radio, the rooftop builder adds a compute node whose only
  interface \<^verbatim>\<open>usrp_if\<close> has the address 192.168.40.1 with netmask 255.255.255.0, and a
  radio node on which the script makes no interface. The fixed-endpoint builder adds a node
  with no interface, hence no address. In the assembled request every rooftop selection
  therefore carries the same address.
\<close>

theorem builder_addresses:
  "map (\<lambda>n. (node_name n, interfaces n)) (nodes (x310_node_pair p idx r req)) =
     map (\<lambda>n. (node_name n, interfaces n)) (nodes req) @
       [(radio_name r @ ''-comp'',
           [\<lparr> if_name = ''usrp_if'',
              addresses = [IPv4Address ''192.168.40.1'' ''255.255.255.0''] \<rparr>]),
        (radio_name r @ ''-x310'', [])]
   \<and> map (\<lambda>n. (node_name n, interfaces n)) (nodes (b210_nuc_pair p idx b req)) =
     map (\<lambda>n. (node_name n, interfaces n)) (nodes req) @
       [(''b210-'' @ aggregate_id b @ ''-nuc2'', [])]
   \<and> map (\<lambda>n. (node_name n, interfaces n)) (nodes (assemble p)) =
     concat (map (\<lambda>r. [(radio_name r @ ''-comp'',
                          [\<lparr> if_name = ''usrp_if'',
                             addresses = [IPv4Address ''192.168.40.1'' ''255.255.255.0''] \<rparr>]),
                        (radio_name r @ ''-x310'', [])]) (x310_radios p)) @
     map (\<lambda>b. (''b210-'' @ aggregate_id b @ ''-nuc2'', [])) (b210_nodes p)"
proof -
  have one: "x310_loop p idx [r] req = x310_node_pair p idx r req"
    and two: "b210_loop p idx [b] req = b210_nuc_pair p idx b req"
    by simp_all
  show ?thesis
    using x310_loop_interfaces [of p idx "[r]" req] b210_loop_interfaces [of p idx "[b]" req]
    unfolding one two
    by (simp add: assemble_nodes b210_loop_interfaces x310_loop_interfaces makeRequestRSpec_def)
qed

text \<open>
  C10. A run that passes validation requests exactly two spectrum ranges, both with third
  argument 0: first (\<^verbatim>\<open>ul_freq_min\<close>, \<^verbatim>\<open>ul_freq_max\<close>), then
  (\<^verbatim>\<open>dl_freq_min\<close>, \<^verbatim>\<open>dl_freq_max\<close>).
\<close>

theorem spectrum_uplink_then_downlink:
  "profile p = Inr req \<Longrightarrow>
     spectrum req =
       [\<lparr> freq_low = ul_freq_min p, freq_high = ul_freq_max p, power = 0 \<rparr>,
        \<lparr> freq_low = dl_freq_min p, freq_high = dl_freq_max p, power = 0 \<rparr>]"
  by (simp add: profile_Inr_iff assemble_spectrum)

theorem spectrum_uplink_then_downlink_witness:
  "profile default_params = Inr (assemble default_params)
   \<and> spectrum (assemble default_params) =
       [\<lparr> freq_low = 2500, freq_high = 2510, power = 0 \<rparr>,
        \<lparr> freq_low = 2620, freq_high = 2630, power = 0 \<rparr>]"
proof -
  note ok = default_params_pass
  show ?thesis
    using ok spectrum_uplink_then_downlink [OF ok]
    by (simp add: default_params_def ULDEFLOFREQ_def ULDEFHIFREQ_def DLDEFLOFREQ_def DLDEFHIFREQ_def)
qed

end
